theory Spec2Isabelle
  imports Complex_Main
begin

section \<open>Loot system (logic/loot\_system.py)\<close>

datatype LootType = CASH | JEWELS | ARTWORK | ARTIFACT | DOCUMENT

text \<open>The fields of \<open>LootItem\<close> that the stealing logic reads and writes. The sprite's
  rectangle is kept as its centre; image and animation fields are drawing state. The
  attribute \<open>value\<close> is the field \<open>val\<close>.\<close>

record LootItem =
  loot_type :: LootType
  val :: int
  steal_time :: real
  being_stolen :: bool
  steal_progress :: real
  rect_center :: "int \<times> int"

text \<open>The dictionary \<open>base_times\<close> of \<open>_get_steal_time\<close>.\<close>

definition base_times :: "LootType \<rightharpoonup> real" where
  "base_times = [CASH \<mapsto> 1.0, JEWELS \<mapsto> 2.0, ARTWORK \<mapsto> 3.0,
                 ARTIFACT \<mapsto> 4.0, DOCUMENT \<mapsto> 1.5]"

text \<open>\<open>_get_steal_time\<close>: \<open>base_times.get(self.loot_type, 2.0) * (1.0 + self.value / 1000)\<close>.\<close>

definition get_steal_time :: "LootType \<Rightarrow> int \<Rightarrow> real" where
  "get_steal_time t v =
     (let value_factor = 1.0 + real_of_int v / 1000
      in (case base_times t of Some b \<Rightarrow> b | None \<Rightarrow> 2.0) * value_factor)"

text \<open>\<open>LootItem.__init__\<close>.\<close>

definition LootItem_init :: "int \<Rightarrow> int \<Rightarrow> LootType \<Rightarrow> int \<Rightarrow> LootItem" where
  "LootItem_init x y t v =
     \<lparr> loot_type = t, val = v, steal_time = get_steal_time t v,
       being_stolen = False, steal_progress = 0, rect_center = (x, y) \<rparr>"

text \<open>\<open>start_stealing\<close> and \<open>stop_stealing\<close> return their boolean result together with
  the item after the call.\<close>

definition start_stealing :: "LootItem \<Rightarrow> bool \<times> LootItem" where
  "start_stealing it =
     (if \<not> being_stolen it
      then (True, it\<lparr>being_stolen := True, steal_progress := 0\<rparr>)
      else (False, it))"

definition stop_stealing :: "LootItem \<Rightarrow> bool \<times> LootItem" where
  "stop_stealing it =
     (if being_stolen it
      then (True, it\<lparr>being_stolen := False, steal_progress := 0\<rparr>)
      else (False, it))"

text \<open>\<open>update_stealing\<close>. The division \<open>100 / self.steal_time\<close> is only reached while
  the item is being stolen.\<close>

datatype py_error = ValueError | IndexError | ZeroDivisionError

definition update_stealing :: "real \<Rightarrow> LootItem \<Rightarrow> py_error + bool \<times> LootItem" where
  "update_stealing dt it =
     (if being_stolen it then
        (if steal_time it = 0 then Inl ZeroDivisionError
         else
           (let progress_per_second = 100 / steal_time it;
                it' = it\<lparr>steal_progress := steal_progress it + progress_per_second * dt\<rparr>
            in Inr (100 \<le> steal_progress it', it')))
      else Inr (False, it))"

text \<open>\<open>LootManager\<close>. A sprite group holds objects by identity, so the live collection is
  a list of (object identity, item) pairs in insertion order; \<open>next_ref\<close> is the identity
  the next constructed \<open>LootItem\<close> receives.\<close>

record LootManager =
  loot_sprites :: "(nat \<times> LootItem) list"
  total_value :: int
  collected_value :: int
  next_ref :: nat

definition value_range :: "LootType \<Rightarrow> int \<times> int" where
  "value_range t = (case t of CASH \<Rightarrow> (100, 500) | JEWELS \<Rightarrow> (300, 800)
      | ARTWORK \<Rightarrow> (500, 1500) | ARTIFACT \<Rightarrow> (1000, 2000) | DOCUMENT \<Rightarrow> (2000, 5000))"

text \<open>\<open>generate_loot\<close>. The two random choices (the weighted type, and the value drawn by
  \<open>random.randint\<close> from the type's range) are the parameters \<open>rnd_type\<close> and
  \<open>rnd_value\<close>; they are only used where the source draws them. The result is the new item's
  identity and the manager after the call.\<close>

definition generate_loot ::
  "LootManager \<Rightarrow> int \<Rightarrow> int \<Rightarrow> LootType option \<Rightarrow> int option \<Rightarrow> LootType \<Rightarrow> (int \<times> int \<Rightarrow> int)
     \<Rightarrow> nat \<times> LootManager" where
  "generate_loot m x y loot_type_arg value_arg rnd_type rnd_value =
     (let t = (case loot_type_arg of None \<Rightarrow> rnd_type | Some t \<Rightarrow> t);
          v = (case value_arg of None \<Rightarrow> rnd_value (value_range t) | Some v \<Rightarrow> v);
          loot = LootItem_init x y t v;
          r = next_ref m
      in (r, m\<lparr> loot_sprites := loot_sprites m @ [(r, loot)],
                 total_value := total_value m + v,
                 next_ref := Suc r \<rparr>))"

text \<open>\<open>create_test_loot\<close> and \<open>LootManager.__init__\<close>. No random choice is made here, so
  the random parameters are fixed arbitrarily.\<close>

definition gen_fixed :: "int \<Rightarrow> int \<Rightarrow> LootType \<Rightarrow> int \<Rightarrow> LootManager \<Rightarrow> LootManager" where
  "gen_fixed x y t v m = snd (generate_loot m x y (Some t) (Some v) CASH fst)"

definition create_test_loot :: "LootManager \<Rightarrow> LootManager" where
  "create_test_loot m =
     gen_fixed 500 300 DOCUMENT 3000
       (gen_fixed 400 250 ARTIFACT 1500
         (gen_fixed 300 200 ARTWORK 1000
           (gen_fixed 200 150 JEWELS 500
             (gen_fixed 100 100 CASH 200 m))))"

definition LootManager_init :: LootManager where
  "LootManager_init =
     create_test_loot \<lparr> loot_sprites = [], total_value = 0, collected_value = 0, next_ref = 0 \<rparr>"

text \<open>\<open>collect_loot\<close>, called with a reference to a loot object. Membership in the group is
  by identity; when the object is in the group, its fields are the ones the group holds.\<close>

definition collect_loot :: "LootManager \<Rightarrow> nat \<Rightarrow> int \<times> LootManager" where
  "collect_loot m r =
     (case map_of (loot_sprites m) r of
        Some loot_item \<Rightarrow>
          (val loot_item,
           m\<lparr> collected_value := collected_value m + val loot_item,
              loot_sprites := filter (\<lambda>p. fst p \<noteq> r) (loot_sprites m) \<rparr>)
      | None \<Rightarrow> (0, m))"

text \<open>The value of the live items, and the manager's bookkeeping invariant. The second and
  third conjuncts say that identities are unique and older than \<open>next_ref\<close>.\<close>

definition live_value :: "LootManager \<Rightarrow> int" where
  "live_value m = sum_list (map (\<lambda>p. val (snd p)) (loot_sprites m))"

definition refs_ok :: "LootManager \<Rightarrow> bool" where
  "refs_ok m = (distinct (map fst (loot_sprites m)) \<and>
                list_all (\<lambda>p. fst p < next_ref m) (loot_sprites m))"

definition loot_inv :: "LootManager \<Rightarrow> bool" where
  "loot_inv m = (collected_value m + live_value m = total_value m \<and> refs_ok m)"


section \<open>Geometry (pygame's \<open>Vector2\<close> and \<open>Rect\<close>, Python's \<open>math\<close>)\<close>

text \<open>Python floats are modelled as real numbers. A \<open>Vector2\<close> is a pair of coordinates.\<close>

type_synonym vector2 = "real \<times> real"

definition vsub :: "vector2 \<Rightarrow> vector2 \<Rightarrow> vector2" where
  "vsub a b = (fst a - fst b, snd a - snd b)"

definition vlength :: "vector2 \<Rightarrow> real" where
  "vlength v = sqrt (fst v * fst v + snd v * snd v)"

text \<open>\<open>Vector2.normalize()\<close> raises \<open>ValueError\<close> on a vector of length zero.\<close>

definition normalize :: "vector2 \<Rightarrow> py_error + vector2" where
  "normalize v = (if vlength v = 0 then Inl ValueError
                  else Inr (fst v / vlength v, snd v / vlength v))"

text \<open>\<open>bool(Vector2)\<close> is false exactly for the zero vector.\<close>

definition vtruthy :: "vector2 \<Rightarrow> bool" where
  "vtruthy v = (fst v \<noteq> 0 \<or> snd v \<noteq> 0)"

text \<open>\<open>math.atan2(y, x)\<close>, \<open>math.degrees\<close>, \<open>math.radians\<close>, and Python's float \<open>%\<close>, whose
  result has the sign of a positive divisor.\<close>

definition atan2 :: "real \<Rightarrow> real \<Rightarrow> real" where
  "atan2 y x =
     (if 0 < x then arctan (y / x)
      else if x < 0 then (if 0 \<le> y then arctan (y / x) + pi else arctan (y / x) - pi)
      else if 0 < y then pi / 2
      else if y < 0 then - (pi / 2)
      else 0)"

definition degrees :: "real \<Rightarrow> real" where
  "degrees r = r * 180 / pi"

definition radians :: "real \<Rightarrow> real" where
  "radians d = d * pi / 180"

definition fmod_py :: "real \<Rightarrow> real \<Rightarrow> real" where
  "fmod_py a m = a - m * of_int \<lfloor>a / m\<rfloor>"

text \<open>\<open>int(x)\<close> on a float, and the conversion of a float argument of \<open>pygame.Rect\<close>:
  truncation toward zero.\<close>

definition py_int :: "real \<Rightarrow> int" where
  "py_int x = (if 0 \<le> x then \<lfloor>x\<rfloor> else \<lceil>x\<rceil>)"

record rect =
  rx :: int
  ry :: int
  rw :: int
  rh :: int

definition Rect :: "real \<Rightarrow> real \<Rightarrow> real \<Rightarrow> real \<Rightarrow> rect" where
  "Rect x y w h = \<lparr> rx = py_int x, ry = py_int y, rw = py_int w, rh = py_int h \<rparr>"

text \<open>\<open>Rect.colliderect\<close>: rectangles of zero width or height collide with nothing; otherwise
  the open interiors must overlap on both axes (touching edges do not collide).\<close>

definition colliderect :: "rect \<Rightarrow> rect \<Rightarrow> bool" where
  "colliderect a b =
     (if rw a = 0 \<or> rh a = 0 \<or> rw b = 0 \<or> rh b = 0 then False
      else min (rx a) (rx a + rw a) < max (rx b) (rx b + rw b)
         \<and> min (ry a) (ry a + rh a) < max (ry b) (ry b + rh b)
         \<and> max (rx a) (rx a + rw a) > min (rx b) (rx b + rw b)
         \<and> max (ry a) (ry a + rh a) > min (ry b) (ry b + rh b))"

text \<open>Assigning \<open>rect.center = (cx, cy)\<close>.\<close>

definition set_center :: "rect \<Rightarrow> int \<times> int \<Rightarrow> rect" where
  "set_center r c = r\<lparr> rx := fst c - rw r div 2, ry := snd c - rh r div 2 \<rparr>"

section \<open>Line of sight (logic/collision.py)\<close>

text \<open>The probe square of one sample of \<open>check_line_of_sight\<close> and the inner \<open>for\<close> loop over
  the walls.\<close>

definition check_rect :: "vector2 \<Rightarrow> vector2 \<Rightarrow> real \<Rightarrow> rect" where
  "check_rect start_pos d current_distance =
     (let x = fst start_pos + fst d * current_distance;
          y = snd start_pos + snd d * current_distance
      in Rect (x - 2) (y - 2) 4 4)"

definition hits_wall :: "rect \<Rightarrow> rect list \<Rightarrow> bool" where
  "hits_wall r wall_sprites = list_ex (\<lambda>wall. colliderect r wall) wall_sprites"

text \<open>The \<open>while\<close> loop. It does not terminate when \<open>step\<close> is not positive and no probe
  hits a wall, so it is a partial function: \<open>None\<close> stands for a call that never returns.\<close>

partial_function (option) cast_ray ::
  "vector2 \<Rightarrow> vector2 \<Rightarrow> rect list \<Rightarrow> real \<Rightarrow> real \<Rightarrow> real \<Rightarrow> bool option" where
  "cast_ray start_pos d wall_sprites step distance current_distance =
     (if current_distance < distance then
        (if hits_wall (check_rect start_pos d current_distance) wall_sprites then Some False
         else cast_ray start_pos d wall_sprites step distance (current_distance + step))
      else Some True)"

definition check_line_of_sight :: "vector2 \<Rightarrow> vector2 \<Rightarrow> rect list \<Rightarrow> real \<Rightarrow> bool option" where
  "check_line_of_sight start_pos end_pos wall_sprites step =
     (let dx = fst end_pos - fst start_pos;
          dy = snd end_pos - snd start_pos;
          distance = sqrt (dx * dx + dy * dy)
      in if distance = 0 then Some True
         else cast_ray start_pos (dx / distance, dy / distance) wall_sprites step distance 0)"

text \<open>The probes the loop examines are those at the distances \<open>0, step, 2 * step, ...\<close> below
  the length of the segment.\<close>

definition seg_length :: "vector2 \<Rightarrow> vector2 \<Rightarrow> real" where
  "seg_length start_pos end_pos = vlength (vsub end_pos start_pos)"





section \<open>Guard AI (logic/guard.py)\<close>

datatype GuardState = PATROLLING | SUSPICIOUS | INVESTIGATING | ALERTED | SEARCHING

text \<open>What the guard reads of the player; the player's \<open>position\<close> is the field
  \<open>pposition\<close>.\<close>

record Player =
  pposition :: vector2
  noise_level :: real
  is_crouching :: bool

text \<open>The guard as \<open>Guard.__init__\<close> builds it without a sprite sheet: it then has no
  \<open>animations\<close> attribute, and the image and the vision-cone surface are drawing state.\<close>

record Guard =
  position :: vector2
  velocity :: vector2
  patrol_points :: "vector2 list"
  current_patrol_point :: nat
  patrol_wait_time :: real
  wait_timer :: real
  walk_speed :: real
  run_speed :: real
  current_speed :: real
  state :: GuardState
  state_timer :: real
  suspicion_level :: int
  alert_position :: "vector2 option"
  view_distance :: real
  view_angle :: real
  view_direction :: real
  sprite_rect :: rect

text \<open>\<open>Guard.__init__(x, y, patrol_points=None)\<close>; \<open>patrol_points or [(x, y)]\<close> replaces both
  \<open>None\<close> and the empty list.\<close>

definition Guard_init :: "real \<Rightarrow> real \<Rightarrow> vector2 list option \<Rightarrow> Guard" where
  "Guard_init x y patrol_points_arg =
     \<lparr> position = (x, y),
       velocity = (0, 0),
       patrol_points = (case patrol_points_arg of
                          None \<Rightarrow> [(x, y)]
                        | Some ps \<Rightarrow> if ps = [] then [(x, y)] else ps),
       current_patrol_point = 0,
       patrol_wait_time = 2.0,
       wait_timer = 0,
       walk_speed = 1.5,
       run_speed = 3.0,
       current_speed = 1.5,
       state = PATROLLING,
       state_timer = 0,
       suspicion_level = 0,
       alert_position = None,
       view_distance = 150,
       view_angle = 90,
       view_direction = 0,
       sprite_rect = set_center \<lparr> rx = 0, ry = 0, rw = 32, rh = 32 \<rparr> (py_int x, py_int y) \<rparr>"

text \<open>\<open>handle_patrol\<close>. Indexing the route outside its bounds raises \<open>IndexError\<close>, and the
  modulo by the length of an empty route raises \<open>ZeroDivisionError\<close>.\<close>

definition handle_patrol :: "real \<Rightarrow> Guard \<Rightarrow> py_error + Guard" where
  "handle_patrol dt g =
     (if wait_timer g > 0 then
        Inr (g\<lparr> wait_timer := wait_timer g - dt, velocity := (0, 0) \<rparr>)
      else if length (patrol_points g) \<le> current_patrol_point g then Inl IndexError
      else
        (let target = patrol_points g ! current_patrol_point g;
             direction = vsub target (position g)
         in if vlength direction < 2 then
              (if length (patrol_points g) = 0 then Inl ZeroDivisionError
               else Inr (g\<lparr> wait_timer := patrol_wait_time g,
                            current_patrol_point :=
                              (current_patrol_point g + 1) mod length (patrol_points g) \<rparr>))
            else
              (case normalize direction of
                 Inl e \<Rightarrow> Inl e
               | Inr d \<Rightarrow> Inr (g\<lparr> velocity := d,
                                  view_direction := degrees (atan2 (snd d) (fst d)) \<rparr>))))"

definition handle_suspicious :: "real \<Rightarrow> Guard \<Rightarrow> Guard" where
  "handle_suspicious dt g =
     (if state_timer g > 3.0 then g\<lparr> state := PATROLLING, state_timer := 0 \<rparr>
      else g\<lparr> view_direction := sin (state_timer g * 2) * 45, velocity := (0, 0) \<rparr>)"

text \<open>\<open>handle_investigation\<close>; \<open>not self.alert_position\<close> holds for \<open>None\<close> and for the zero
  vector.\<close>

definition handle_investigation :: "real \<Rightarrow> Guard \<Rightarrow> py_error + Guard" where
  "handle_investigation dt g =
     (case alert_position g of
        None \<Rightarrow> Inr (g\<lparr> state := PATROLLING \<rparr>)
      | Some ap \<Rightarrow>
          if \<not> vtruthy ap then Inr (g\<lparr> state := PATROLLING \<rparr>)
          else
            (let direction = vsub ap (position g)
             in if vlength direction < 5 then
                  Inr (g\<lparr> state := SUSPICIOUS, state_timer := 0, alert_position := None \<rparr>)
                else
                  (case normalize direction of
                     Inl e \<Rightarrow> Inl e
                   | Inr d \<Rightarrow>
                       Inr (g\<lparr> velocity := d,
                               view_direction :=
                                 degrees (atan2 (snd direction) (fst direction)) \<rparr>))))"

text \<open>\<open>handle_alert\<close>: the vector to the player is normalised without a test of its length.\<close>

definition handle_alert :: "real \<Rightarrow> Player option \<Rightarrow> Guard \<Rightarrow> py_error + Guard" where
  "handle_alert dt player g =
     (case player of
        None \<Rightarrow> Inr (g\<lparr> state := SEARCHING, state_timer := 0 \<rparr>)
      | Some p \<Rightarrow>
          (let direction = vsub (pposition p) (position g)
           in case normalize direction of
                Inl e \<Rightarrow> Inl e
              | Inr d \<Rightarrow>
                  Inr (g\<lparr> velocity := d,
                          view_direction := degrees (atan2 (snd direction) (fst direction)),
                          current_speed := run_speed g \<rparr>)))"

text \<open>The values the random generator returns during one update: \<open>random.random()\<close> and
  \<open>random.uniform(0, 360)\<close> in \<open>handle_search\<close>, \<open>random.random()\<close> in
  \<open>check_player_detection\<close>.\<close>

record draws =
  search_draw :: real
  search_angle :: real
  detect_draw :: real

definition handle_search :: "real \<Rightarrow> draws \<Rightarrow> Guard \<Rightarrow> Guard" where
  "handle_search dt rnd g =
     (if state_timer g > 10.0 then
        g\<lparr> state := PATROLLING, state_timer := 0, current_speed := walk_speed g \<rparr>
      else if search_draw rnd < 0.02 then
        (let angle = search_angle rnd
         in g\<lparr> velocity := (cos (radians angle), sin (radians angle)),
               view_direction := angle \<rparr>)
      else g)"

text \<open>\<open>move\<close>; \<open>walls\<close> is the list of the wall sprites' rectangles, \<open>None\<close> when the argument
  is absent. An empty group is false, as \<open>None\<close> is.\<close>

definition move :: "real \<Rightarrow> rect list option \<Rightarrow> Guard \<Rightarrow> Guard" where
  "move dt walls g =
     (let old_position = position g;
          new_position = (fst (position g) + fst (velocity g) * dt * current_speed g,
                          snd (position g) + snd (velocity g) * dt * current_speed g);
          g1 = g\<lparr> position := new_position,
                  sprite_rect := set_center (sprite_rect g)
                                   (py_int (fst new_position), py_int (snd new_position)) \<rparr>
      in case walls of
           None \<Rightarrow> g1
         | Some ws \<Rightarrow>
             if ws \<noteq> [] \<and> filter (colliderect (sprite_rect g1)) ws \<noteq> [] then
               g1\<lparr> position := old_position,
                   sprite_rect := set_center (sprite_rect g1)
                                    (py_int (fst old_position), py_int (snd old_position)),
                   velocity := (0, 0) \<rparr>
             else g1)"

definition alert :: "vector2 \<Rightarrow> Guard \<Rightarrow> Guard" where
  "alert pos g =
     g\<lparr> alert_position := Some pos,
        state := ALERTED,
        state_timer := 0,
        current_speed := run_speed g,
        suspicion_level := 100 \<rparr>"

text \<open>\<open>check_player_detection\<close>, with the random draw as \<open>draw\<close>. The division by
  \<open>view_distance\<close> raises when that is zero.\<close>

definition check_player_detection :: "Player \<Rightarrow> real \<Rightarrow> Guard \<Rightarrow> py_error + bool \<times> Guard" where
  "check_player_detection player draw g =
     (let to_player = vsub (pposition player) (position g);
          distance = vlength to_player
      in if distance > view_distance g then Inr (False, g)
         else
           (let angle = degrees (atan2 (snd to_player) (fst to_player));
                angle_diff = \<bar>fmod_py (angle - view_direction g + 180) 360 - 180\<bar>
            in if angle_diff > view_angle g / 2 then Inr (False, g)
               else if view_distance g = 0 then Inl ZeroDivisionError
               else
                 (let chance0 = 1.0 - distance / view_distance g;
                      chance1 = chance0 * (1.0 + noise_level player / 100);
                      detection_chance = (if is_crouching player then chance1 * 0.5 else chance1)
                  in if draw < detection_chance
                     then Inr (True, alert (pposition player) g)
                     else Inr (False, g))))"

text \<open>\<open>update_animation\<close> returns at once when the guard has no \<open>animations\<close> attribute.\<close>

definition update_animation :: "real \<Rightarrow> Guard \<Rightarrow> Guard" where
  "update_animation dt g = g"

text \<open>\<open>update\<close>: the per-tick entry point. An exception raised by a handler or by the detection
  check leaves the call.\<close>

definition update :: "real \<Rightarrow> Player option \<Rightarrow> rect list option \<Rightarrow> draws \<Rightarrow> Guard \<Rightarrow> py_error + Guard" where
  "update dt player walls rnd g =
     (let g0 = g\<lparr> state_timer := state_timer g + dt \<rparr>;
          handled = (case state g0 of
                       PATROLLING \<Rightarrow> handle_patrol dt g0
                     | SUSPICIOUS \<Rightarrow> Inr (handle_suspicious dt g0)
                     | INVESTIGATING \<Rightarrow> handle_investigation dt g0
                     | ALERTED \<Rightarrow> handle_alert dt player g0
                     | SEARCHING \<Rightarrow> Inr (handle_search dt rnd g0))
      in case handled of
           Inl e \<Rightarrow> Inl e
         | Inr g1 \<Rightarrow>
             (let g2 = move dt walls g1
              in case player of
                   None \<Rightarrow> Inr (update_animation dt g2)
                 | Some p \<Rightarrow>
                     (case check_player_detection p (detect_draw rnd) g2 of
                        Inl e \<Rightarrow> Inl e
                      | Inr res \<Rightarrow> Inr (update_animation dt (snd res)))))"

text \<open>A run of updates, one per tick, stopping at the first exception.\<close>

record tick =
  tick_dt :: real
  tick_player :: "Player option"
  tick_walls :: "rect list option"
  tick_rnd :: draws

fun run_updates :: "tick list \<Rightarrow> Guard \<Rightarrow> py_error + Guard" where
  "run_updates [] g = Inr g"
| "run_updates (t # ts) g =
     (case update (tick_dt t) (tick_player t) (tick_walls t) (tick_rnd t) g of
        Inl e \<Rightarrow> Inl e
      | Inr g' \<Rightarrow> run_updates ts g')"

text \<open>The quantities the detection rule is stated with: the distance from the guard to the
  player, the angular difference between the player's bearing and the view direction, and the
  detection probability as the specification writes it.\<close>

definition player_distance :: "Guard \<Rightarrow> Player \<Rightarrow> real" where
  "player_distance g p = vlength (vsub (pposition p) (position g))"

definition bearing_diff :: "Guard \<Rightarrow> Player \<Rightarrow> real" where
  "bearing_diff g p =
     \<bar>fmod_py (degrees (atan2 (snd (vsub (pposition p) (position g)))
                              (fst (vsub (pposition p) (position g))))
                 - view_direction g + 180) 360 - 180\<bar>"

definition spec_probability :: "Guard \<Rightarrow> Player \<Rightarrow> real" where
  "spec_probability g p =
     (1 - player_distance g p / view_distance g) * (1 + noise_level p / 100)
       * (if is_crouching p then 1 / 2 else 1)"

text \<open>A guard standing at its post \<open>(x, y)\<close>, the only waypoint of its route, and a guard whose
  waypoint index lies inside its route.\<close>

definition at_post :: "real \<Rightarrow> real \<Rightarrow> Guard \<Rightarrow> bool" where
  "at_post x y g =
     (patrol_points g = [(x, y)] \<and> current_patrol_point g = 0 \<and> position g = (x, y)
      \<and> velocity g = (0, 0) \<and> state g = PATROLLING \<and> view_distance g \<noteq> 0)"

definition route_ok :: "Guard \<Rightarrow> bool" where
  "route_ok g = (current_patrol_point g < length (patrol_points g))"

text \<open>Concrete ticks used below: the player standing on the guard's own position; the player
  in plain sight ten units ahead; and a tick of \<open>dt\<close> seconds without a player reference.\<close>

definition same_spot :: tick where
  "same_spot =
     \<lparr> tick_dt = 1 / 60,
       tick_player = Some \<lparr> pposition = (0, 0), noise_level = 0, is_crouching = False \<rparr>,
       tick_walls = None,
       tick_rnd = \<lparr> search_draw = 0, search_angle = 0, detect_draw = 0 \<rparr> \<rparr>"

definition in_sight :: tick where
  "in_sight =
     \<lparr> tick_dt = 1,
       tick_player = Some \<lparr> pposition = (10, 0), noise_level = 0, is_crouching = False \<rparr>,
       tick_walls = None,
       tick_rnd = \<lparr> search_draw = 1, search_angle = 0, detect_draw = 0 \<rparr> \<rparr>"

definition no_player :: "real \<Rightarrow> tick" where
  "no_player dt =
     \<lparr> tick_dt = dt, tick_player = None, tick_walls = None,
       tick_rnd = \<lparr> search_draw = 1, search_angle = 0, detect_draw = 0 \<rparr> \<rparr>"

text \<open>A guard sees the player, chases for a tick, loses the player reference, searches until
  the search times out, and spends the rest of its waiting time.\<close>

definition chase_and_return :: "tick list" where
  "chase_and_return = [in_sight, in_sight, no_player 1, no_player 11, no_player 2]"

text \<open>The guard at the end of that run, and after one more patrol update.\<close>

definition returned :: Guard where
  "returned =
     \<lparr> position = (45 / 2, 0), velocity = (0, 0), patrol_points = [(0, 0)],
       current_patrol_point = 0, patrol_wait_time = 2, wait_timer = 0,
       walk_speed = 3 / 2, run_speed = 3, current_speed = 3 / 2,
       state = PATROLLING, state_timer = 2, suspicion_level = 100,
       alert_position = Some (10, 0), view_distance = 150, view_angle = 90,
       view_direction = 0,
       sprite_rect = \<lparr> rx = 6, ry = - 16, rw = 32, rh = 32 \<rparr> \<rparr>"

definition walking_back :: Guard where
  "walking_back =
     returned\<lparr> state_timer := 3, velocity := (- 1, 0), view_direction := 180,
               position := (21, 0),
               sprite_rect := \<lparr> rx = 5, ry = - 16, rw = 32, rh = 32 \<rparr> \<rparr>"

section \<open>Map loader (logic/map\_loader.py)\<close>

text \<open>The parsed JSON document. A key that may be absent is an optional field, read with the
  default that the source passes to \<open>dict.get\<close>.\<close>

record tile_info =
  info_type :: "string option"
  info_name :: "string option"
  info_properties :: "(string \<times> string) list option"

record tileset_json =
  firstgid :: "int option"
  tiles :: "tile_info list option"

record layer_json =
  layer_name :: "string option"
  layer_data :: "int list option"

record map_json =
  json_width :: "int option"
  json_height :: "int option"
  layers :: "layer_json list option"
  tilesets :: "tileset_json list option"


text \<open>An image is either the one loaded under a name into \<open>self.tileset\<close> or the placeholder
  surface of a tile type. The loader's \<open>tileset\<close> dictionary is the list of its keys, and
  its group \<open>loot_sprites\<close> is the field \<open>loot_tile_sprites\<close>. An empty document is
  false in \<open>if not self.map_data\<close>, as \<open>None\<close> is; it has no layers and no tilesets, so
  both readings create the same tiles.\<close>

datatype surface = TilesetImage string | PlaceholderTile string

record Tile =
  tile_x :: int
  tile_y :: int
  tile_image :: surface
  tile_type :: string
  tile_properties :: "(string \<times> string) list"

record MapLoader =
  tile_size :: int
  tileset :: "string list"
  map_data :: "map_json option"
  width :: int
  height :: int
  wall_sprites :: "Tile list"
  floor_sprites :: "Tile list"
  object_sprites :: "Tile list"
  loot_tile_sprites :: "Tile list"
  door_sprites :: "Tile list"
  vent_sprites :: "Tile list"
  security_sprites :: "Tile list"























section \<open>Verified properties\<close>

subsection \<open>Loot\<close>

lemma base_times_total:
  "base_times t = Some (case t of CASH \<Rightarrow> 1 | JEWELS \<Rightarrow> 2 | ARTWORK \<Rightarrow> 3 | ARTIFACT \<Rightarrow> 4 | DOCUMENT \<Rightarrow> 3/2)"
  by (cases t) (simp_all add: base_times_def)

text \<open>Claim C6. The steal duration of every loot item is its type's base time multiplied by
  \<open>1 + value / 1000\<close>; the base time of \<open>CASH\<close> is the smallest and that of \<open>ARTIFACT\<close> the
  largest; for one and the same value above \<open>-1000\<close> (every positive value, as the data model
  has it) a \<open>CASH\<close> item takes strictly less time than an \<open>ARTIFACT\<close> item; and for a fixed
  type the duration is strictly increasing in the value.\<close>

theorem steal_time_formula_and_order:
  "base_times t \<noteq> None
   \<and> steal_time (LootItem_init x y t v) = the (base_times t) * (1 + real_of_int v / 1000)
   \<and> the (base_times CASH) \<le> the (base_times t) \<and> the (base_times t) \<le> the (base_times ARTIFACT)
   \<and> (- 1000 < v \<longrightarrow>
        steal_time (LootItem_init x y CASH v) < steal_time (LootItem_init x' y' ARTIFACT v))
   \<and> (v < v' \<longrightarrow>
        steal_time (LootItem_init x y t v) < steal_time (LootItem_init x y t v'))"
  by (cases t) (simp_all add: base_times_total LootItem_init_def get_steal_time_def)

theorem steal_time_formula_and_order_witness:
  "steal_time (LootItem_init 100 100 CASH 200) < steal_time (LootItem_init 400 250 ARTIFACT 200)
   \<and> steal_time (LootItem_init 100 100 CASH 200) < steal_time (LootItem_init 100 100 CASH 201)
   \<and> steal_time (LootItem_init 100 100 CASH 200) = 6 / 5"
  using steal_time_formula_and_order [of CASH 100 100 200 400 250 201]
  by (simp add: base_times_total)

text \<open>Claim C7. On an item already being stolen, \<open>start_stealing\<close> returns \<open>False\<close> and
  leaves the item (its flag and its progress included) as it was; \<open>stop_stealing\<close> returns
  \<open>True\<close>, clears the flag and resets the progress to 0, changing nothing else.\<close>

theorem duplicate_start_and_stop:
  "being_stolen it \<Longrightarrow>
     start_stealing it = (False, it)
     \<and> fst (stop_stealing it) = True
     \<and> being_stolen (snd (stop_stealing it)) = False
     \<and> steal_progress (snd (stop_stealing it)) = 0
     \<and> snd (stop_stealing it) = it\<lparr>being_stolen := False, steal_progress := 0\<rparr>"
  by (simp add: start_stealing_def stop_stealing_def)

theorem duplicate_start_and_stop_witness:
  "being_stolen (snd (start_stealing (LootItem_init 100 100 CASH 200)))
   \<and> start_stealing (snd (start_stealing (LootItem_init 100 100 CASH 200)))
       = (False, snd (start_stealing (LootItem_init 100 100 CASH 200)))
   \<and> being_stolen (snd (stop_stealing (snd (start_stealing (LootItem_init 100 100 CASH 200)))))
       = False"
proof -
  have b: "being_stolen (snd (start_stealing (LootItem_init 100 100 CASH 200)))"
    by (simp add: start_stealing_def LootItem_init_def)
  show ?thesis
    using b duplicate_start_and_stop [OF b] by simp
qed

lemma live_value_filter:
  "distinct (map fst xs) \<Longrightarrow> map_of xs r = Some it \<Longrightarrow>
   sum_list (map (\<lambda>p. val (snd p)) (filter (\<lambda>p. fst p \<noteq> r) xs)) + val it
     = sum_list (map (\<lambda>p. val (snd p)) xs)"
proof (induction xs)
  case Nil
  then show ?case by simp
next
  case (Cons p xs)
  show ?case
  proof (cases "fst p = r")
    case True
    with Cons.prems have "snd p = it" by (cases p) simp
    moreover from True Cons.prems have "r \<notin> fst ` set xs" by auto
    then have "filter (\<lambda>p. fst p \<noteq> r) xs = xs"
      by (auto intro!: filter_True)
    ultimately show ?thesis using True by simp
  next
    case False
    with Cons.prems have "map_of xs r = Some it" by (cases p) (simp split: if_splits)
    with Cons False show ?thesis by simp
  qed
qed

lemma refs_ok_generate:
  "refs_ok m \<Longrightarrow> refs_ok (snd (generate_loot m x y lt vo rt rv))"
  by (auto simp: refs_ok_def generate_loot_def Let_def list_all_iff less_Suc_eq)

lemma refs_ok_collect: "refs_ok m \<Longrightarrow> refs_ok (snd (collect_loot m r))"
  by (auto simp: refs_ok_def collect_loot_def list_all_iff distinct_map_filter split: option.splits)

lemma value_generate:
  "collected_value m + live_value m = total_value m \<Longrightarrow>
   collected_value (snd (generate_loot m x y lt vo rt rv))
     + live_value (snd (generate_loot m x y lt vo rt rv))
     = total_value (snd (generate_loot m x y lt vo rt rv))"
  by (simp add: generate_loot_def Let_def live_value_def LootItem_init_def)

lemma value_collect:
  assumes "collected_value m + live_value m = total_value m" "refs_ok m"
  shows "collected_value (snd (collect_loot m r)) + live_value (snd (collect_loot m r))
     = total_value (snd (collect_loot m r))"
proof (cases "map_of (loot_sprites m) r")
  case None
  with assms show ?thesis by (simp add: collect_loot_def)
next
  case (Some it)
  from assms(2) have "distinct (map fst (loot_sprites m))" by (simp add: refs_ok_def)
  from live_value_filter [OF this Some] assms(1) Some
  show ?thesis by (simp add: collect_loot_def live_value_def)
qed

lemma loot_inv_init: "loot_inv LootManager_init"
  by (simp add: loot_inv_def LootManager_init_def create_test_loot_def gen_fixed_def
      generate_loot_def Let_def live_value_def refs_ok_def LootItem_init_def)

text \<open>Claim C10. \<open>collected_value\<close> plus the values of the live items equals \<open>total_value\<close>
  after construction, and every \<open>generate_loot\<close> and \<open>collect_loot\<close> call preserves it
  (whatever the arguments and the random choices); collecting an object that is not in the
  live collection returns 0 and changes nothing.\<close>

theorem loot_manager_invariant:
  "loot_inv LootManager_init
   \<and> (loot_inv m \<longrightarrow> loot_inv (snd (generate_loot m x y lt vo rt rv)))
   \<and> (loot_inv m \<longrightarrow> loot_inv (snd (collect_loot m r)))
   \<and> (r \<notin> fst ` set (loot_sprites m) \<longrightarrow> collect_loot m r = (0, m))"
proof -
  have "r \<notin> fst ` set (loot_sprites m) \<Longrightarrow> map_of (loot_sprites m) r = None"
    by (simp add: map_of_eq_None_iff)
  then show ?thesis
    using loot_inv_init refs_ok_generate value_generate refs_ok_collect value_collect
    by (auto simp: loot_inv_def collect_loot_def)
qed

theorem loot_manager_invariant_witness:
  "loot_inv LootManager_init
   \<and> loot_inv (snd (generate_loot LootManager_init 10 20 None None JEWELS fst))
   \<and> loot_inv (snd (collect_loot LootManager_init 2))
   \<and> fst (collect_loot LootManager_init 2) = 1000
   \<and> collected_value (snd (collect_loot LootManager_init 2)) = 1000
   \<and> total_value LootManager_init = 6200
   \<and> collect_loot LootManager_init 7 = (0, LootManager_init)"
proof -
  have i: "loot_inv LootManager_init"
    using loot_manager_invariant [of LootManager_init] by simp
  have n: "7 \<notin> fst ` set (loot_sprites LootManager_init)"
    by (simp add: LootManager_init_def create_test_loot_def gen_fixed_def generate_loot_def Let_def)
  have c: "fst (collect_loot LootManager_init 2) = 1000
     \<and> collected_value (snd (collect_loot LootManager_init 2)) = 1000
     \<and> total_value LootManager_init = 6200"
    by (simp add: collect_loot_def LootManager_init_def create_test_loot_def gen_fixed_def
        generate_loot_def Let_def LootItem_init_def)
  show ?thesis
    using i n c loot_manager_invariant [of LootManager_init 10 20 None None JEWELS fst 2]
      loot_manager_invariant [of LootManager_init 10 20 None None JEWELS fst 7]
    by simp
qed

subsection \<open>Guard detection\<close>

lemma vlength_x_axis: "vlength (a, 0) = \<bar>a\<bar>"
  by (simp add: vlength_def)

lemma atan2_x_axis: "atan2 0 x = (if x < 0 then pi else 0)"
  by (simp add: atan2_def)

lemma degrees_simps: "degrees 0 = 0" "degrees pi = 180"
  by (simp_all add: degrees_def)

lemma detection_unfold:
  "check_player_detection p r g =
     (if player_distance g p > view_distance g then Inr (False, g)
      else if bearing_diff g p > view_angle g / 2 then Inr (False, g)
      else if view_distance g = 0 then Inl ZeroDivisionError
      else if r < spec_probability g p then Inr (True, alert (pposition p) g)
      else Inr (False, g))"
  by (simp add: check_player_detection_def Let_def player_distance_def bearing_diff_def
      spec_probability_def)

text \<open>Claim C1. When the player is within view distance and within the view half-angle (and
  the view distance is not zero), the detection check succeeds exactly when the random draw is
  below \<open>(1 - distance / view_distance) * (1 + noise / 100)\<close>, halved for a crouching player.
  At distance 0 with noise 0 and no crouching that probability is 1, so every draw below 1
  detects; at distance equal to the view distance it is 0, so no non-negative draw detects.\<close>

theorem detection_probability:
  assumes "view_distance g \<noteq> 0"
    and "player_distance g p \<le> view_distance g"
    and "bearing_diff g p \<le> view_angle g / 2"
  shows "check_player_detection p r g
           = Inr (r < spec_probability g p,
                  if r < spec_probability g p then alert (pposition p) g else g)
         \<and> (player_distance g p = 0 \<and> noise_level p = 0 \<and> \<not> is_crouching p \<longrightarrow>
              spec_probability g p = 1
              \<and> (r < 1 \<longrightarrow> check_player_detection p r g = Inr (True, alert (pposition p) g)))
         \<and> (player_distance g p = view_distance g \<longrightarrow>
              spec_probability g p = 0
              \<and> (0 \<le> r \<longrightarrow> check_player_detection p r g = Inr (False, g)))"
proof -
  have main: "check_player_detection p r g
           = Inr (r < spec_probability g p,
                  if r < spec_probability g p then alert (pposition p) g else g)"
    using assms by (simp add: detection_unfold)
  have one: "spec_probability g p = 1"
    if "player_distance g p = 0" "noise_level p = 0" "\<not> is_crouching p"
    using that by (simp add: spec_probability_def)
  have zero: "spec_probability g p = 0" if "player_distance g p = view_distance g"
    using that assms(1) by (simp add: spec_probability_def)
  show ?thesis
    using main one zero by auto
qed

lemma dist_init: "player_distance (Guard_init 0 0 None) \<lparr> pposition = (a, 0), noise_level = n, is_crouching = c \<rparr> = \<bar>a\<bar>"
  by (simp add: player_distance_def Guard_init_def vsub_def vlength_x_axis)

lemma bearing_init: "0 \<le> a \<Longrightarrow> bearing_diff (Guard_init 0 0 None) \<lparr> pposition = (a, 0), noise_level = n, is_crouching = c \<rparr> = 0"
  by (simp add: bearing_diff_def Guard_init_def vsub_def atan2_x_axis degrees_simps fmod_py_def)

theorem detection_probability_witness:
  "check_player_detection \<lparr> pposition = (0, 0), noise_level = 0, is_crouching = False \<rparr> (1/2)
       (Guard_init 0 0 None)
     = Inr (True, alert (0, 0) (Guard_init 0 0 None))
   \<and> check_player_detection \<lparr> pposition = (150, 0), noise_level = 100, is_crouching = False \<rparr> 0
       (Guard_init 0 0 None)
     = Inr (False, Guard_init 0 0 None)"
proof -
  let ?g = "Guard_init 0 0 None"
  let ?p = "\<lparr> pposition = (0, 0), noise_level = 0, is_crouching = False \<rparr>"
  let ?q = "\<lparr> pposition = (150, 0), noise_level = 100, is_crouching = False \<rparr>"
  have v: "view_distance ?g \<noteq> 0" "view_distance ?g = 150" "view_angle ?g = 90"
    by (simp_all add: Guard_init_def)
  have dp: "player_distance ?g ?p = 0" and dq: "player_distance ?g ?q = 150"
    by (simp_all add: dist_init)
  have bp: "bearing_diff ?g ?p = 0" and bq: "bearing_diff ?g ?q = 0"
    by (simp_all add: bearing_init)
  from detection_probability [of ?g ?p "1/2"] v dp bp
  have 1: "check_player_detection ?p (1/2) ?g = Inr (True, alert (0, 0) ?g)" by simp
  from detection_probability [of ?g ?q 0] v dq bq
  have 2: "check_player_detection ?q 0 ?g = Inr (False, ?g)" by simp
  from 1 2 show ?thesis by simp
qed

text \<open>Claim C5. Whatever the guard's state, a successful detection check leaves the guard
  with state \<open>ALERTED\<close>, the alert position set to the player's position, the state timer 0,
  the current speed equal to the run speed and the suspicion level 100, and with every other
  field as before.\<close>

theorem detection_success_alerts:
  "alert pos g = g\<lparr> alert_position := Some pos, state := ALERTED, state_timer := 0,
                     current_speed := run_speed g, suspicion_level := 100 \<rparr>
   \<and> (check_player_detection p r g = Inr (True, g') \<longrightarrow>
        g' = g\<lparr> alert_position := Some (pposition p), state := ALERTED, state_timer := 0,
                current_speed := run_speed g, suspicion_level := 100 \<rparr>
        \<and> state g' = ALERTED \<and> alert_position g' = Some (pposition p) \<and> state_timer g' = 0
        \<and> current_speed g' = run_speed g \<and> suspicion_level g' = 100)"
  by (auto simp: detection_unfold alert_def split: if_splits)

theorem detection_success_alerts_witness:
  "check_player_detection \<lparr> pposition = (0, 0), noise_level = 0, is_crouching = False \<rparr> (1/2)
       (Guard_init 0 0 None)
     = Inr (True, (Guard_init 0 0 None)\<lparr> alert_position := Some (0, 0), state := ALERTED,
                state_timer := 0, current_speed := 3, suspicion_level := 100 \<rparr>)"
proof -
  let ?g = "Guard_init 0 0 None"
  let ?p = "\<lparr> pposition = (0, 0), noise_level = 0, is_crouching = False \<rparr>"
  have c: "check_player_detection ?p (1/2) ?g = Inr (True, alert (0, 0) ?g)"
    by (simp add: detection_unfold dist_init bearing_init spec_probability_def)
      (simp add: Guard_init_def)
  have r: "run_speed ?g = 3" by (simp add: Guard_init_def)
  from detection_success_alerts [of "(0, 0)" ?g ?p "1/2" "alert (0, 0) ?g"] c r
  show ?thesis by simp
qed

text \<open>Claim C9. When the player is beyond the view distance, or outside the view half-angle, or
  the random draw is not below the detection probability, the detection check returns
  \<open>False\<close>; and whenever it returns \<open>False\<close> the guard (its state, alert position, state
  timer, current speed and suspicion level included) is unchanged.\<close>

theorem detection_failure_frame:
  "(player_distance g p > view_distance g \<longrightarrow> check_player_detection p r g = Inr (False, g))
   \<and> (bearing_diff g p > view_angle g / 2 \<longrightarrow>
        check_player_detection p r g = Inr (False, g))
   \<and> (view_distance g \<noteq> 0 \<and> \<not> r < spec_probability g p \<longrightarrow>
        check_player_detection p r g = Inr (False, g))
   \<and> (check_player_detection p r g = Inr (False, g') \<longrightarrow>
        g' = g \<and> state g' = state g \<and> alert_position g' = alert_position g
        \<and> state_timer g' = state_timer g \<and> current_speed g' = current_speed g
        \<and> suspicion_level g' = suspicion_level g)"
  by (auto simp: detection_unfold split: if_splits)

theorem detection_failure_frame_witness:
  "check_player_detection \<lparr> pposition = (200, 0), noise_level = 50, is_crouching = False \<rparr> 0
       (Guard_init 0 0 None) = Inr (False, Guard_init 0 0 None)
   \<and> check_player_detection \<lparr> pposition = (- 10, 0), noise_level = 50, is_crouching = False \<rparr> 0
       (Guard_init 0 0 None) = Inr (False, Guard_init 0 0 None)
   \<and> check_player_detection \<lparr> pposition = (75, 0), noise_level = 0, is_crouching = True \<rparr> (1/2)
       (Guard_init 0 0 None) = Inr (False, Guard_init 0 0 None)"
proof -
  let ?g = "Guard_init 0 0 None"
  let ?far = "\<lparr> pposition = (200, 0), noise_level = 50, is_crouching = False \<rparr>"
  let ?behind = "\<lparr> pposition = (- 10, 0), noise_level = 50, is_crouching = False \<rparr>"
  let ?quiet = "\<lparr> pposition = (75, 0), noise_level = 0, is_crouching = True \<rparr>"
  have v: "view_distance ?g = 150" "view_angle ?g = 90"
    by (simp_all add: Guard_init_def)
  have d: "player_distance ?g ?far = 200" "player_distance ?g ?quiet = 75"
    by (simp_all add: dist_init)
  have b: "bearing_diff ?g ?behind = 180"
    by (simp add: bearing_diff_def Guard_init_def vsub_def atan2_x_axis degrees_simps
        fmod_py_def)
  have s: "spec_probability ?g ?quiet = 1 / 4"
    by (simp add: spec_probability_def d v)
  from detection_failure_frame [of ?g ?far 0] v d
  have 1: "check_player_detection ?far 0 ?g = Inr (False, ?g)" by simp
  from detection_failure_frame [of ?g ?behind 0] v b
  have 2: "check_player_detection ?behind 0 ?g = Inr (False, ?g)" by simp
  from detection_failure_frame [of ?g ?quiet "1/2"] v s
  have 3: "check_player_detection ?quiet (1/2) ?g = Inr (False, ?g)" by simp
  from 1 2 3 show ?thesis by simp
qed

subsection \<open>Guard update\<close>

lemma normalize_zero: "normalize (0, 0) = Inl ValueError"
  by (simp add: normalize_def vlength_def)

lemma normalize_x_axis: "a \<noteq> 0 \<Longrightarrow> normalize (a, 0) = Inr (a / \<bar>a\<bar>, 0)"
  by (simp add: normalize_def vlength_x_axis)

lemma py_int_zero: "py_int 0 = 0"
  by (simp add: py_int_def)

lemma first_tick:
  "update (1 / 60) (Some \<lparr> pposition = (0, 0), noise_level = 0, is_crouching = False \<rparr>) None
      \<lparr> search_draw = 0, search_angle = 0, detect_draw = 0 \<rparr> (Guard_init 0 0 None)
   = Inr (alert (0, 0) ((Guard_init 0 0 None)\<lparr> state_timer := 1 / 60, wait_timer := 2 \<rparr>))"
  apply (simp add: update_def Let_def Guard_init_def handle_patrol_def vsub_def vlength_x_axis
      move_def set_center_def py_int_zero update_animation_def)
  apply (simp add: detection_unfold player_distance_def bearing_diff_def vsub_def vlength_x_axis
      atan2_x_axis degrees_simps fmod_py_def spec_probability_def update_animation_def)
  done

text \<open>Claim C2 (not met by the code). A guard built by the constructor detects a player who
  stands on the guard's own position in the first update; in the second update \<open>handle_alert\<close>
  normalises the zero vector to the player, and the \<open>ValueError\<close> leaves \<open>update\<close>.
  \<open>handle_patrol\<close> and \<open>handle_investigation\<close> test the length before they normalise.\<close>

theorem update_raises_on_coinciding_player:
  "run_updates [same_spot, same_spot] (Guard_init 0 0 None) = Inl ValueError"
  apply (simp add: same_spot_def first_tick)
  apply (simp add: update_def Let_def alert_def Guard_init_def handle_alert_def vsub_def normalize_zero)
  done

lemmas eval_update = update_def Let_def handle_patrol_def handle_alert_def handle_search_def
  move_def set_center_def py_int_def update_animation_def vsub_def vlength_x_axis
  normalize_x_axis atan2_x_axis degrees_simps detection_unfold player_distance_def
  bearing_diff_def fmod_py_def spec_probability_def alert_def

lemma run_chase_and_return:
  "run_updates chase_and_return (Guard_init 0 0 (Some [])) = Inr returned"
  apply (simp add: chase_and_return_def in_sight_def no_player_def Guard_init_def)
  apply (simp add: eval_update)
  apply (simp add: eval_update returned_def)
  done

text \<open>Claim C8 as stated fails: after a chase has displaced it, the guard built with an empty
  route is in patrol state with velocity zero away from its post, and the next patrol update
  gives it the velocity \<open>(-1, 0)\<close>, back toward the post.\<close>

theorem patrol_update_moves_displaced_guard:
  "run_updates chase_and_return (Guard_init 0 0 (Some [])) = Inr returned
   \<and> state returned = PATROLLING \<and> velocity returned = (0, 0)
   \<and> update 1 None None \<lparr> search_draw = 1, search_angle = 0, detect_draw = 0 \<rparr> returned
       = Inr walking_back
   \<and> state walking_back = PATROLLING \<and> velocity walking_back = (- 1, 0)"
proof -
  have "update 1 None None \<lparr> search_draw = 1, search_angle = 0, detect_draw = 0 \<rparr> returned
       = Inr walking_back"
    by (simp add: returned_def walking_back_def eval_update)
  moreover have "state returned = PATROLLING \<and> velocity returned = (0, 0)
     \<and> state walking_back = PATROLLING \<and> velocity walking_back = (- 1, 0)"
    by (simp add: returned_def walking_back_def)
  ultimately show ?thesis
    using run_chase_and_return by simp
qed

lemma vlength_zero: "vlength (0, 0) = 0"
  by (simp add: vlength_def)

lemma handle_patrol_at_post:
  assumes "at_post x y g"
  shows "\<exists>g1. handle_patrol dt (g\<lparr>state_timer := t\<rparr>) = Inr g1 \<and> at_post x y g1"
  using assms
  by (auto simp: at_post_def handle_patrol_def Let_def vsub_def vlength_zero)

lemma move_at_post: "at_post x y g \<Longrightarrow> at_post x y (move dt walls g)"
  by (auto simp: at_post_def move_def Let_def split: option.splits)

lemma detection_keeps_place:
  "view_distance g \<noteq> 0 \<Longrightarrow>
   \<exists>b g'. check_player_detection p r g = Inr (b, g') \<and> velocity g' = velocity g
      \<and> position g' = position g \<and> patrol_points g' = patrol_points g
      \<and> current_patrol_point g' = current_patrol_point g
      \<and> view_distance g' = view_distance g
      \<and> (state g' = PATROLLING \<longrightarrow> state g = PATROLLING)"
  by (auto simp: detection_unfold alert_def)

lemma update_at_post:
  assumes "at_post x y g"
  shows "\<exists>g'. update dt player walls rnd g = Inr g' \<and> velocity g' = (0, 0)
           \<and> position g' = (x, y) \<and> (player = None \<or> state g' = PATROLLING \<longrightarrow> at_post x y g')"
proof -
  from handle_patrol_at_post [OF assms] obtain g1 where
    h: "handle_patrol dt (g\<lparr>state_timer := state_timer g + dt\<rparr>) = Inr g1" and a1: "at_post x y g1"
    by blast
  let ?g2 = "move dt walls g1"
  have a2: "at_post x y ?g2" using a1 by (rule move_at_post)
  have st: "state (g\<lparr>state_timer := state_timer g + dt\<rparr>) = PATROLLING"
    using assms by (simp add: at_post_def)
  show ?thesis
  proof (cases player)
    case None
    with h st a2 show ?thesis
      by (simp add: update_def Let_def update_animation_def at_post_def)
  next
    case (Some p)
    from a2 have "view_distance ?g2 \<noteq> 0" by (simp add: at_post_def)
    from detection_keeps_place [OF this, of p "detect_draw rnd"] obtain b g' where
      c: "check_player_detection p (detect_draw rnd) ?g2 = Inr (b, g')"
      and k: "velocity g' = velocity ?g2" "position g' = position ?g2"
        "patrol_points g' = patrol_points ?g2"
        "current_patrol_point g' = current_patrol_point ?g2"
        "view_distance g' = view_distance ?g2"
        "state g' = PATROLLING \<longrightarrow> state ?g2 = PATROLLING"
      by blast
    have "update dt player walls rnd g = Inr g'"
      using Some h st c by (simp add: update_def Let_def update_animation_def)
    with k a2 Some show ?thesis by (simp add: at_post_def)
  qed
qed

lemma handle_patrol_route_ok:
  assumes "route_ok g"
  shows "\<exists>g1. handle_patrol dt g = Inr g1 \<and> route_ok g1"
proof -
  let ?n = "length (patrol_points g)"
  from assms have n: "current_patrol_point g < ?n" "?n \<noteq> 0"
    by (auto simp: route_ok_def)
  let ?dir = "vsub (patrol_points g ! current_patrol_point g) (position g)"
  show ?thesis
  proof (cases "wait_timer g > 0")
    case True
    then show ?thesis using n by (simp add: handle_patrol_def route_ok_def)
  next
    case False
    show ?thesis
    proof (cases "vlength ?dir < 2")
      case True
      with False n show ?thesis
        by (simp add: handle_patrol_def route_ok_def Let_def)
    next
      case far: False
      then have "vlength ?dir \<noteq> 0" by simp
      then obtain d where "normalize ?dir = Inr d" by (simp add: normalize_def)
      with False far n show ?thesis
        by (simp add: handle_patrol_def route_ok_def Let_def)
    qed
  qed
qed

lemma suspicious_route_ok: "route_ok g \<Longrightarrow> route_ok (handle_suspicious dt g)"
  by (simp add: route_ok_def handle_suspicious_def)

lemma investigation_route_ok:
  "route_ok g \<Longrightarrow> handle_investigation dt g = Inr g1 \<Longrightarrow> route_ok g1"
  by (auto simp: route_ok_def handle_investigation_def Let_def
      split: option.splits if_splits sum.splits)

lemma alert_route_ok: "route_ok g \<Longrightarrow> handle_alert dt player g = Inr g1 \<Longrightarrow> route_ok g1"
  by (auto simp: route_ok_def handle_alert_def Let_def split: option.splits sum.splits)

lemma search_route_ok: "route_ok g \<Longrightarrow> route_ok (handle_search dt rnd g)"
  by (simp add: route_ok_def handle_search_def Let_def)

lemma move_route_ok: "route_ok g \<Longrightarrow> route_ok (move dt walls g)"
  by (simp add: route_ok_def move_def Let_def split: option.splits)

lemma detection_route_ok:
  "route_ok g \<Longrightarrow> check_player_detection p r g = Inr res \<Longrightarrow> route_ok (snd res)"
  by (auto simp: route_ok_def detection_unfold alert_def split: if_splits)

lemma update_route_ok:
  assumes "route_ok g" "update dt player walls rnd g = Inr g'"
  shows "route_ok g'"
proof -
  let ?g0 = "g\<lparr>state_timer := state_timer g + dt\<rparr>"
  have r0: "route_ok ?g0" using assms(1) by (simp add: route_ok_def)
  obtain g1 where h: "(case state ?g0 of
                       PATROLLING \<Rightarrow> handle_patrol dt ?g0
                     | SUSPICIOUS \<Rightarrow> Inr (handle_suspicious dt ?g0)
                     | INVESTIGATING \<Rightarrow> handle_investigation dt ?g0
                     | ALERTED \<Rightarrow> handle_alert dt player ?g0
                     | SEARCHING \<Rightarrow> Inr (handle_search dt rnd ?g0)) = Inr g1"
    using assms(2) by (auto simp: update_def Let_def split: sum.splits)
  have r1: "route_ok g1"
  proof (cases "state ?g0")
    case PATROLLING
    with h r0 handle_patrol_route_ok [of ?g0 dt] show ?thesis by auto
  next
    case SUSPICIOUS
    with h suspicious_route_ok [OF r0, of dt] show ?thesis by auto
  next
    case INVESTIGATING
    with h investigation_route_ok [OF r0, of dt g1] show ?thesis by auto
  next
    case ALERTED
    with h alert_route_ok [OF r0, of dt player g1] show ?thesis by auto
  next
    case SEARCHING
    with h search_route_ok [OF r0, of dt rnd] show ?thesis by auto
  qed
  have r2: "route_ok (move dt walls g1)" using r1 by (rule move_route_ok)
  have u: "update dt player walls rnd g =
      (case player of
         None \<Rightarrow> Inr (move dt walls g1)
       | Some p \<Rightarrow>
           (case check_player_detection p (detect_draw rnd) (move dt walls g1) of
              Inl e \<Rightarrow> Inl e
            | Inr res \<Rightarrow> Inr (snd res)))"
    using h by (simp add: update_def Let_def update_animation_def
        split: option.splits sum.splits)
  show ?thesis
  proof (cases player)
    case None
    with u assms(2) r2 show ?thesis by simp
  next
    case (Some p)
    with u assms(2) obtain res where
      "check_player_detection p (detect_draw rnd) (move dt walls g1) = Inr res" "g' = snd res"
      by (auto split: sum.splits)
    with r2 detection_route_ok show ?thesis by blast
  qed
qed

text \<open>Claim C8, amended. A guard constructed with an empty or absent route is the guard
  constructed with the single waypoint at its spawn position, and it stands at that post. Every
  update of a guard standing at its post in patrol state (as it does from construction until the
  player is first detected) returns normally with velocity zero and the position unchanged, and
  the guard is still at its post unless that update detected the player. The waypoint index of
  a constructed guard lies inside its route; from such a guard \<open>handle_patrol\<close> never raises
  (no out-of-bounds index, no modulo by zero), and every update keeps the index inside the
  route.\<close>

theorem empty_route_guard_at_post:
  "(pp = None \<or> pp = Some [] \<longrightarrow>
      Guard_init x y pp = Guard_init x y (Some [(x, y)]) \<and> at_post x y (Guard_init x y pp))
   \<and> (at_post x y g \<longrightarrow>
        (\<exists>g'. update dt player walls rnd g = Inr g' \<and> velocity g' = (0, 0)
           \<and> position g' = (x, y)
           \<and> (player = None \<or> state g' = PATROLLING \<longrightarrow> at_post x y g')))
   \<and> route_ok (Guard_init x y pp)
   \<and> (route_ok g \<longrightarrow>
        (\<exists>g1. handle_patrol dt g = Inr g1 \<and> route_ok g1)
        \<and> (\<forall>g'. update dt player walls rnd g = Inr g' \<longrightarrow> route_ok g'))"
proof -
  have "pp = None \<or> pp = Some [] \<Longrightarrow>
      Guard_init x y pp = Guard_init x y (Some [(x, y)]) \<and> at_post x y (Guard_init x y pp)"
    by (auto simp: Guard_init_def at_post_def)
  moreover have "route_ok (Guard_init x y pp)"
    by (simp add: Guard_init_def route_ok_def split: option.splits)
  moreover have "at_post x y g \<Longrightarrow>
        (\<exists>g'. update dt player walls rnd g = Inr g' \<and> velocity g' = (0, 0)
           \<and> position g' = (x, y)
           \<and> (player = None \<or> state g' = PATROLLING \<longrightarrow> at_post x y g'))"
    by (rule update_at_post)
  moreover have "route_ok g \<Longrightarrow> \<exists>g1. handle_patrol dt g = Inr g1 \<and> route_ok g1"
    by (rule handle_patrol_route_ok)
  moreover have "route_ok g \<Longrightarrow> \<forall>g'. update dt player walls rnd g = Inr g' \<longrightarrow> route_ok g'"
    using update_route_ok by blast
  ultimately show ?thesis by blast
qed

theorem empty_route_guard_at_post_witness:
  "at_post 0 0 (Guard_init 0 0 (Some []))
   \<and> (\<exists>g'. update 1 None None \<lparr> search_draw = 1, search_angle = 0, detect_draw = 0 \<rparr>
              (Guard_init 0 0 (Some [])) = Inr g'
          \<and> velocity g' = (0, 0) \<and> position g' = (0, 0) \<and> at_post 0 0 g')
   \<and> route_ok (Guard_init 0 0 (Some []))
   \<and> (\<exists>g1. handle_patrol 1 (Guard_init 0 0 (Some [])) = Inr g1 \<and> route_ok g1)"
  using empty_route_guard_at_post [of "Some []" 0 0 "Guard_init 0 0 (Some [])" 1 None None
      "\<lparr> search_draw = 1, search_angle = 0, detect_draw = 0 \<rparr>"]
  by blast

subsection \<open>Line of sight\<close>




lemma cast_ray_no_return:
  assumes "cast_ray s d ws step len cur = Some b"
  shows "step \<le> 0 \<longrightarrow> cur < len \<longrightarrow>
     (\<forall>k::nat. \<not> hits_wall (check_rect s d (cur + real k * step)) ws) \<longrightarrow> False"
proof (rule cast_ray.raw_induct [where P = "\<lambda>s d ws step len cur b. step \<le> 0 \<longrightarrow> cur < len \<longrightarrow>
     (\<forall>k::nat. \<not> hits_wall (check_rect s d (cur + real k * step)) ws) \<longrightarrow> False", OF _ assms])
  fix f s d ws step len cur and b :: bool
  assume IH: "\<And>s d ws step len cur b. f s d ws step len cur = Some b \<Longrightarrow>
      step \<le> 0 \<longrightarrow> cur < len \<longrightarrow>
      (\<forall>k::nat. \<not> hits_wall (check_rect s d (cur + real k * step)) ws) \<longrightarrow> False"
    and eq: "(if cur < len
         then if hits_wall (check_rect s d cur) ws then Some False
              else f s d ws step len (cur + step)
         else Some True) = Some b"
  show "step \<le> 0 \<longrightarrow> cur < len \<longrightarrow>
      (\<forall>k::nat. \<not> hits_wall (check_rect s d (cur + real k * step)) ws) \<longrightarrow> False"
  proof (intro impI)
    assume st: "step \<le> 0" and lt0: "cur < len"
      and all: "\<forall>k::nat. \<not> hits_wall (check_rect s d (cur + real k * step)) ws"
    have miss: "\<not> hits_wall (check_rect s d (cur + real k * step)) ws" for k :: nat
      using all by blast
    from miss [of 0] have m0: "\<not> hits_wall (check_rect s d cur) ws"
      by simp
    with eq lt0 have call: "f s d ws step len (cur + step) = Some b"
      by simp
    have lt: "cur + step < len" using st lt0 by simp
    have "\<not> hits_wall (check_rect s d (cur + step + real k * step)) ws" for k :: nat
    proof -
      have e: "cur + step + real k * step = cur + real (Suc k) * step"
        by (simp add: algebra_simps)
      show ?thesis unfolding e by (rule miss)
    qed
    with IH [OF call] st lt show False by blast
  qed
qed

lemma cast_ray_diverges:
  assumes "step \<le> 0" "cur < len"
    "\<forall>k::nat. \<not> hits_wall (check_rect s d (cur + real k * step)) ws"
  shows "cast_ray s d ws step len cur = None"
proof (cases "cast_ray s d ws step len cur")
  case None
  then show ?thesis .
next
  case (Some b)
  from cast_ray_no_return [OF Some] assms show ?thesis by blast
qed

lemma line_of_sight_nonpositive_step:
  assumes "step \<le> 0" "seg_length s e \<noteq> 0"
    "\<forall>k::nat. \<not> hits_wall (check_rect s
         (fst (vsub e s) / seg_length s e, snd (vsub e s) / seg_length s e) (real k * step)) ws"
  shows "check_line_of_sight s e ws step = None"
proof -
  have "0 \<le> seg_length s e" by (simp add: seg_length_def vlength_def)
  with assms(2) have pos: "0 < seg_length s e" by simp
  have "cast_ray s (fst (vsub e s) / seg_length s e, snd (vsub e s) / seg_length s e) ws step
          (seg_length s e) 0 = None"
    by (rule cast_ray_diverges [OF assms(1) pos]) (use assms(3) in simp)
  with assms(2) show ?thesis
    by (auto simp: check_line_of_sight_def Let_def seg_length_def vlength_def vsub_def)
qed




subsection \<open>Map import\<close>




























end
